theory Spec2Isabelle
  imports Complex_Main "HOL-Library.Sublist"
begin

section \<open>JavaScript values\<close>

text \<open>
  The two sources are a VuePress configuration module (\<^verbatim>\<open>docs/.vuepress/config.js\<close>) and
  the example autocomplete component of the guide page on custom input types. Both read
  dynamically typed data (frontmatter parsed from YAML, the model of an input), so the values
  they inspect are held in a datatype of JavaScript values. Strings are byte lists holding the
  UTF-8 encoding of the JavaScript string; no definition below measures a string's length.
  A number is NaN, negative zero, an infinity or a finite value; the finite doubles are a subset
  of the rationals, which is all that truthiness needs.
\<close>

datatype jsnum = NaN | NegZero | PosInfinity | NegInfinity | Finite rat

datatype jsval =
    Undefined
  | Null
  | Bool bool
  | Num jsnum
  | Str string
  | Arr "jsval list"
  | Obj "(string \<times> jsval) list"
  | DateObj jsval \<comment> \<open>\<^verbatim>\<open>new Date(v)\<close>, kept symbolically with its argument\<close>

datatype js_error = TypeError

fun truthy_num :: "jsnum \<Rightarrow> bool" where
  "truthy_num NaN = False"
| "truthy_num NegZero = False"
| "truthy_num PosInfinity = True"
| "truthy_num NegInfinity = True"
| "truthy_num (Finite q) = (q \<noteq> 0)"

text \<open>ToBoolean: what \<^verbatim>\<open>||\<close>, \<^verbatim>\<open>&&\<close>, \<^verbatim>\<open>!\<close> and \<^verbatim>\<open>if\<close> test.\<close>

fun truthy :: "jsval \<Rightarrow> bool" where
  "truthy Undefined = False"
| "truthy Null = False"
| "truthy (Bool b) = b"
| "truthy (Num n) = truthy_num n"
| "truthy (Str s) = (s \<noteq> [])"
| "truthy (Arr _) = True"
| "truthy (Obj _) = True"
| "truthy (DateObj _) = True"

text \<open>\<^verbatim>\<open>a || b\<close> is \<open>a\<close> when \<open>a\<close> is truthy and \<open>b\<close> otherwise; \<^verbatim>\<open>a && b\<close> is \<open>a\<close> when
  \<open>a\<close> is falsy and \<open>b\<close> otherwise.\<close>

definition js_or :: "jsval \<Rightarrow> jsval \<Rightarrow> jsval" where
  "js_or a b = (if truthy a then a else b)"

definition js_and :: "jsval \<Rightarrow> jsval \<Rightarrow> jsval" where
  "js_and a b = (if truthy a then b else a)"

text \<open>Reading a property of a plain object: a missing key reads as \<^verbatim>\<open>undefined\<close>.\<close>

definition get_prop :: "(string \<rightharpoonup> jsval) \<Rightarrow> string \<Rightarrow> jsval" where
  "get_prop obj k = (case obj k of None \<Rightarrow> Undefined | Some v \<Rightarrow> v)"

text \<open>A string or \<^verbatim>\<open>undefined\<close> inside a template literal.\<close>

definition template_string :: "string option \<Rightarrow> string" where
  "template_string v = (case v of None \<Rightarrow> ''undefined'' | Some s \<Rightarrow> s)"

text \<open>\<^verbatim>\<open>v || ''\<close> for a value that is a string or \<^verbatim>\<open>undefined\<close>.\<close>

definition or_empty :: "string option \<Rightarrow> string" where
  "or_empty v = (case v of None \<Rightarrow> [] | Some s \<Rightarrow> if s \<noteq> [] then s else [])"

text \<open>The em dash U+2014 of the source text, in UTF-8.\<close>

definition em_dash :: string where
  "em_dash = [CHR 0xE2, CHR 0x80, CHR 0x94]"


section \<open>The configuration module\<close>

subsection \<open>What the host passes to the SEO callbacks\<close>

text \<open>
  The SEO plugin calls every callback with the page, the site data and the page's path.
  A page's title is a string or \<^verbatim>\<open>undefined\<close>; its frontmatter is an object of parsed values;
  \<^verbatim>\<open>lastUpdated\<close> is whatever the last-updated plugin stored, or \<^verbatim>\<open>undefined\<close>.
\<close>

record page =
  page_title :: "string option"
  frontmatter :: "string \<rightharpoonup> jsval"
  lastUpdated :: jsval

record site_themeConfig =
  theme_author :: jsval
  theme_domain :: "string option"

record site =
  site_title :: jsval
  site_themeConfig :: site_themeConfig

type_synonym seo_callback = "page \<Rightarrow> site \<Rightarrow> string \<Rightarrow> jsval"

record seo_options =
  seo_title :: seo_callback
  seo_image :: seo_callback
  siteTitle :: seo_callback
  seo_description :: seo_callback
  author :: seo_callback
  tags :: seo_callback
  twitterCard :: seo_callback
  seo_type :: seo_callback
  url :: seo_callback
  publishedAt :: seo_callback
  modifiedAt :: seo_callback

subsection \<open>The sidebar\<close>

text \<open>
  A sidebar entry is either a bare path string or an object with a title and the optional
  keys \<^verbatim>\<open>path\<close>, \<^verbatim>\<open>collapsable\<close> and \<^verbatim>\<open>children\<close>; a key the literal does not write is
  \<open>None\<close>.
\<close>

datatype sidebar_item =
    PagePath string
  | NavNode string "string option" "bool option" "sidebar_item list option"

record nav_item =
  nav_text :: string
  nav_link :: string

record algolia =
  apiKey :: string
  indexName :: string

record themeConfig =
  sidebar :: "(string \<times> sidebar_item list) list"
  nav :: "nav_item list"
  searchPlaceholder :: string
  smoothScroll :: bool
  logo :: string
  repo :: string
  docsRepo :: string
  docsDir :: string
  editLinks :: bool
  editLinkText :: string
  algolia :: algolia

subsection \<open>Plugins and the configuration object\<close>

datatype plugin_options =
    Options "(string \<times> string) list"
  | SeoOptions seo_options

text \<open>A plugin entry is the array \<^verbatim>\<open>[name]\<close> or \<^verbatim>\<open>[name, options]\<close>.\<close>

datatype plugin = Plugin string "plugin_options option"

record config =
  cfg_title :: string
  cfg_description :: string
  head :: "(string \<times> (string \<times> string) list) list"
  port :: nat
  themeConfig :: themeConfig
  plugins :: "plugin list"
  dest :: string

text \<open>
  The module's top-level bindings, \<^verbatim>\<open>const description\<close> and \<^verbatim>\<open>const title\<close>. The
  exported function and the callbacks it builds close over them; the function is modelled as
  taking the bindings and returning them with the object it builds.
\<close>

record module_scope =
  description :: string
  title :: string

definition scope :: module_scope where
  "scope = \<lparr>
     description = ''The easiest way to build forms with Vue. Built-in validation, error handling, repeatable fields, form generation & more '' @ em_dash @ '' make complex form creation a breeze.'',
     title = ''Vue Formulate'' \<rparr>"

definition guide_sidebar :: "sidebar_item list" where
  "guide_sidebar = [
     NavNode ''Guide'' (Some ''/guide'') (Some False) (Some [
       NavNode ''Installation'' (Some ''/guide/installation/'') (Some True) None,
       NavNode ''Getting Started'' (Some ''/guide/'') (Some True) None,
       NavNode ''Validation'' (Some ''/guide/validation/'') (Some True) None,
       NavNode ''Plugins'' (Some ''/guide/plugins/'') (Some True) None,
       NavNode ''Theming'' (Some ''/guide/theming/'') (Some True) None,
       NavNode ''Internationalization'' (Some ''/guide/internationalization/'') (Some True) None,
       NavNode ''Contributing'' (Some ''/guide/contributing/'') (Some True) None
     ]),
     NavNode ''Inputs'' (Some ''/guide/inputs'') (Some False) (Some [
       NavNode ''Configuration'' (Some ''/guide/inputs/'') (Some True) None,
       NavNode ''Custom input types'' (Some ''/guide/inputs/custom-inputs/'') (Some True) None,
       NavNode ''Slots'' (Some ''/guide/inputs/slots/'') (Some True) None,
       NavNode ''Types'' None (Some False) (Some [
         PagePath ''/guide/inputs/types/button/'',
         PagePath ''/guide/inputs/types/box/'',
         PagePath ''/guide/inputs/types/file/'',
         PagePath ''/guide/inputs/types/group/'',
         PagePath ''/guide/inputs/types/select/'',
         PagePath ''/guide/inputs/types/sliders/'',
         PagePath ''/guide/inputs/types/text/'',
         PagePath ''/guide/inputs/types/textarea/''
       ])
     ]),
     NavNode ''Forms'' (Some ''/guide/forms'') (Some False) (Some [
       NavNode ''Using forms'' (Some ''/guide/forms/'') (Some True) None,
       NavNode ''Error handling'' (Some ''/guide/forms/error-handling/'') (Some True) None
     ])
   ]"

text \<open>The options object of the SEO plugin: eleven callbacks, each closing over the module's
  bindings and ignoring the arguments its parameter list does not name.\<close>

definition seo :: "module_scope \<Rightarrow> seo_options" where
  "seo sc = \<lparr>
     seo_title = (\<lambda>p _ _. Str (template_string (page_title p) @ '' '' @ em_dash @ '' Vue Formulate'')),
     seo_image = (\<lambda>_ _ _. Str ''https://vueformulate.com/assets/img/og.jpg''),
     siteTitle = (\<lambda>_ s _. site_title s),
     seo_description = (\<lambda>p _ _. js_or (get_prop (frontmatter p) ''description'') (Str (description sc))),
     author = (\<lambda>_ s _. theme_author (site_themeConfig s)),
     tags = (\<lambda>p _ _. get_prop (frontmatter p) ''tags''),
     twitterCard = (\<lambda>_ _ _. Str ''summary_large_image''),
     seo_type = (\<lambda>_ _ _. Str ''article''),
     url = (\<lambda>_ s path. Str (or_empty (theme_domain (site_themeConfig s)) @ path)),
     publishedAt = (\<lambda>p _ _. js_and (get_prop (frontmatter p) ''date'') (DateObj (get_prop (frontmatter p) ''date''))),
     modifiedAt = (\<lambda>p _ _. js_and (lastUpdated p) (DateObj (lastUpdated p))) \<rparr>"

text \<open>\<^verbatim>\<open>module.exports = ctx => ({ ... })\<close>.\<close>

definition module_exports :: "'ctx \<Rightarrow> module_scope \<Rightarrow> config \<times> module_scope" where
  "module_exports ctx sc = (\<lparr>
     cfg_title = title sc,
     cfg_description = description sc,
     head = [
       (''link'', [(''rel'', ''apple-touch-icon''), (''sizes'', ''180x180''),
                   (''href'', ''https://vueformulate.com/assets/favicon/apple-touch-icon.png'')]),
       (''script'', [(''src'', ''https://polyfill.io/v3/polyfill.min.js?features=es2015%2CFunction.name'')])
     ],
     port = 8123,
     themeConfig = \<lparr>
       sidebar = [(''/guide'', guide_sidebar)],
       nav = [
         \<lparr> nav_text = ''Home'', nav_link = ''/'' \<rparr>,
         \<lparr> nav_text = ''Guide'', nav_link = ''/guide/'' \<rparr>,
         \<lparr> nav_text = ''Changelog'', nav_link = ''/changelog/'' \<rparr>
       ],
       searchPlaceholder = ''Search...'',
       smoothScroll = True,
       logo = ''/assets/img/logo.png'',
       repo = ''wearebraid/vue-formulate'',
       docsRepo = ''wearebraid/vueformulate.com'',
       docsDir = ''docs'',
       editLinks = True,
       editLinkText = ''Help improve this page!'',
       algolia = \<lparr> apiKey = ''efde7b14d4e236e6a1ea491545e42ea0'', indexName = ''vueformulate'' \<rparr>
     \<rparr>,
     plugins = [
       Plugin ''live'' None,
       Plugin ''@vuepress/google-analytics'' (Some (Options [(''ga'', ''UA-107296601-3'')])),
       Plugin ''seo'' (Some (SeoOptions (seo sc)))
     ],
     dest = ''public''
   \<rparr>, sc)"

subsection \<open>Reading the assembled object\<close>

fun plugin_name :: "plugin \<Rightarrow> string" where
  "plugin_name (Plugin n _) = n"

fun item_title :: "sidebar_item \<Rightarrow> string option" where
  "item_title (PagePath _) = None"
| "item_title (NavNode t _ _ _) = Some t"

fun children :: "sidebar_item \<Rightarrow> sidebar_item list" where
  "children (PagePath _) = []"
| "children (NavNode _ _ _ None) = []"
| "children (NavNode _ _ _ (Some cs)) = cs"

fun collapsable :: "sidebar_item \<Rightarrow> bool option" where
  "collapsable (PagePath _) = None"
| "collapsable (NavNode _ _ c _) = c"

text \<open>Every entry of a subtree, the root first.\<close>

fun nodes :: "sidebar_item \<Rightarrow> sidebar_item list" where
  "nodes (PagePath p) = [PagePath p]"
| "nodes (NavNode t p c None) = [NavNode t p c None]"
| "nodes (NavNode t p c (Some cs)) = NavNode t p c (Some cs) # concat (map nodes cs)"

definition sidebar_nodes :: "config \<Rightarrow> sidebar_item list" where
  "sidebar_nodes cfg = concat (map (\<lambda>(_, items). concat (map nodes items)) (sidebar (themeConfig cfg)))"

definition is_date :: "jsval \<Rightarrow> bool" where
  "is_date v = (case v of DateObj _ \<Rightarrow> True | _ \<Rightarrow> False)"


section \<open>The example autocomplete component\<close>

text \<open>
  \<^verbatim>\<open>MyFormulateAutocomplete.vue\<close>, printed in the guide page on custom input types. The
  component reads \<^verbatim>\<open>context.model\<close> and \<^verbatim>\<open>context.options\<close> (an array of option objects, or
  something that is not an array, \<open>None\<close> here), reads the \<^verbatim>\<open>label\<close> of every option, and owns
  one piece of state, \<^verbatim>\<open>selectedIndex\<close>.

  The model and a label can be any value, and the component compares them with \<^verbatim>\<open>===\<close>,
  which on objects is identity. A value it reads is therefore a primitive (\<^verbatim>\<open>undefined\<close> for a
  missing key) or a reference to an object of plain data (an array, an object literal, a date),
  known by its address.
\<close>

datatype bound_value =
    BUndefined
  | BNull
  | BBool bool
  | BNum jsnum
  | BStr string
  | BObject nat

record autocomplete_option =
  opt_value :: jsval
  label :: bound_value

record input_context =
  model :: bound_value
  options :: "autocomplete_option list option"

record autocomplete =
  input_ctx :: input_context
  selectedIndex :: int

text \<open>ToBoolean on what the component reads; every object is truthy.\<close>

fun truthy_bound :: "bound_value \<Rightarrow> bool" where
  "truthy_bound BUndefined = False"
| "truthy_bound BNull = False"
| "truthy_bound (BBool b) = b"
| "truthy_bound (BNum n) = truthy_num n"
| "truthy_bound (BStr s) = (s \<noteq> [])"
| "truthy_bound (BObject _) = True"

text \<open>\<^verbatim>\<open>a === b\<close> on numbers: NaN equals nothing, the two zeros are equal.\<close>

fun num_strict_eq :: "jsnum \<Rightarrow> jsnum \<Rightarrow> bool" where
  "num_strict_eq NaN _ = False"
| "num_strict_eq _ NaN = False"
| "num_strict_eq NegZero b = (b = NegZero \<or> b = Finite 0)"
| "num_strict_eq a NegZero = (a = Finite 0)"
| "num_strict_eq a b = (a = b)"

text \<open>\<^verbatim>\<open>a === b\<close>: false between values of different types, identity on objects.\<close>

fun strict_eq :: "bound_value \<Rightarrow> bound_value \<Rightarrow> bool" where
  "strict_eq BUndefined BUndefined = True"
| "strict_eq BNull BNull = True"
| "strict_eq (BBool a) (BBool b) = (a = b)"
| "strict_eq (BNum a) (BNum b) = num_strict_eq a b"
| "strict_eq (BStr a) (BStr b) = (a = b)"
| "strict_eq (BObject a) (BObject b) = (a = b)"
| "strict_eq _ _ = False"

text \<open>\<^verbatim>\<open>s.includes(t)\<close>: \<open>t\<close> occurs in \<open>s\<close> as a contiguous run.\<close>

fun string_includes :: "string \<Rightarrow> string \<Rightarrow> bool" where
  "string_includes [] t = (t = [])"
| "string_includes (c # cs) t = (prefix t (c # cs) \<or> string_includes cs t)"

text \<open>
  \<^verbatim>\<open>v.toLowerCase()\<close>: a string answers with its lower-cased copy. On \<^verbatim>\<open>undefined\<close> and
  \<^verbatim>\<open>null\<close> the property read throws, and on every other value the property is missing and
  the call throws; both are a TypeError. The Unicode case mapping itself belongs to the
  runtime and is the parameter \<open>toLowerCase\<close> of everything below.
\<close>

definition call_toLowerCase :: "(string \<Rightarrow> string) \<Rightarrow> bound_value \<Rightarrow> js_error + string" where
  "call_toLowerCase toLowerCase v = (case v of BStr s \<Rightarrow> Inr (toLowerCase s) | _ \<Rightarrow> Inl TypeError)"

text \<open>
  The \<^verbatim>\<open>.filter(option => option.label.toLowerCase().includes(model.toLowerCase()))\<close> call,
  left to right: for each option the label is lower-cased first, then the model, and the first
  throw ends the whole call.
\<close>

fun filter_options :: "(string \<Rightarrow> string) \<Rightarrow> bound_value \<Rightarrow> autocomplete_option list \<Rightarrow> js_error + autocomplete_option list" where
  "filter_options toLowerCase m [] = Inr []"
| "filter_options toLowerCase m (opt # opts) =
     (case call_toLowerCase toLowerCase (label opt) of
        Inl e \<Rightarrow> Inl e
      | Inr haystack \<Rightarrow>
          (case call_toLowerCase toLowerCase m of
             Inl e \<Rightarrow> Inl e
           | Inr needle \<Rightarrow>
               (case filter_options toLowerCase m opts of
                  Inl e \<Rightarrow> Inl e
                | Inr rest \<Rightarrow> Inr (if string_includes haystack needle then opt # rest else rest))))"

definition filteredOptions :: "(string \<Rightarrow> string) \<Rightarrow> input_context \<Rightarrow> js_error + autocomplete_option list" where
  "filteredOptions toLowerCase c =
     (case options c of
        None \<Rightarrow> Inr []
      | Some opts \<Rightarrow>
          if truthy_bound (model c) then
            (case find (\<lambda>opt. strict_eq (label opt) (model c)) opts of
               None \<Rightarrow> filter_options toLowerCase (model c) opts
             | Some isAlreadySelected \<Rightarrow> Inr [])
          else Inr [])"

definition increment :: "(string \<Rightarrow> string) \<Rightarrow> autocomplete \<Rightarrow> js_error + autocomplete" where
  "increment toLowerCase this =
     (case filteredOptions toLowerCase (input_ctx this) of
        Inl e \<Rightarrow> Inl e
      | Inr fs \<Rightarrow>
          (let len = int (length fs) in
           if selectedIndex this + 1 < len
           then Inr (this\<lparr>selectedIndex := selectedIndex this + 1\<rparr>)
           else Inr (this\<lparr>selectedIndex := 0\<rparr>)))"

definition decrement :: "(string \<Rightarrow> string) \<Rightarrow> autocomplete \<Rightarrow> js_error + autocomplete" where
  "decrement toLowerCase this =
     (case filteredOptions toLowerCase (input_ctx this) of
        Inl e \<Rightarrow> Inl e
      | Inr fs \<Rightarrow>
          (let len = int (length fs) in
           if selectedIndex this - 1 \<ge> 0
           then Inr (this\<lparr>selectedIndex := selectedIndex this - 1\<rparr>)
           else Inr (this\<lparr>selectedIndex := len - 1\<rparr>)))"



text \<open>A lower-casing of the ASCII letters, to run the component on concrete input.\<close>

definition ascii_lower :: "string \<Rightarrow> string" where
  "ascii_lower s = map (\<lambda>c. if 65 \<le> (of_char c :: nat) \<and> (of_char c :: nat) \<le> 90 then char_of (of_char c + 32 :: nat) else c) s"


section \<open>Concrete inputs\<close>

definition page_with_metadata :: page where
  "page_with_metadata = \<lparr>
     page_title = Some ''Validation'',
     frontmatter = [''description'' \<mapsto> Str ''How to validate inputs'', ''date'' \<mapsto> Str ''2020-03-01''],
     lastUpdated = Str ''3/1/2020, 10:00:00 AM'' \<rparr>"

definition page_without_metadata :: page where
  "page_without_metadata = \<lparr> page_title = Some ''Guide'', frontmatter = Map.empty, lastUpdated = Undefined \<rparr>"

definition page_empty_description :: page where
  "page_empty_description = \<lparr>
     page_title = Some ''Guide'', frontmatter = [''description'' \<mapsto> Str []], lastUpdated = Undefined \<rparr>"

definition docs_site :: site where
  "docs_site = \<lparr>
     site_title = Str ''Vue Formulate'',
     site_themeConfig = \<lparr> theme_author = Undefined, theme_domain = None \<rparr> \<rparr>"

text \<open>The one group of the sidebar that has children and no path of its own.\<close>

definition types_group :: sidebar_item where
  "types_group = NavNode ''Types'' None (Some False) (Some [
     PagePath ''/guide/inputs/types/button/'',
     PagePath ''/guide/inputs/types/box/'',
     PagePath ''/guide/inputs/types/file/'',
     PagePath ''/guide/inputs/types/group/'',
     PagePath ''/guide/inputs/types/select/'',
     PagePath ''/guide/inputs/types/sliders/'',
     PagePath ''/guide/inputs/types/text/'',
     PagePath ''/guide/inputs/types/textarea/''
   ])"

text \<open>The options of the guide's own usage example.\<close>

definition user_options :: "autocomplete_option list" where
  "user_options = [
     \<lparr> opt_value = Num (Finite 1), label = BStr ''Jon Doe'' \<rparr>,
     \<lparr> opt_value = Num (Finite 2), label = BStr ''Jane Roe'' \<rparr>,
     \<lparr> opt_value = Num (Finite 3), label = BStr ''Bob Foe'' \<rparr>,
     \<lparr> opt_value = Num (Finite 4), label = BStr ''Ben Cho'' \<rparr>
   ]"

definition typing_oe :: autocomplete where
  "typing_oe = \<lparr> input_ctx = \<lparr> model = BStr ''OE'', options = Some user_options \<rparr>, selectedIndex = 2 \<rparr>"



text \<open>A page whose frontmatter has a blank \<^verbatim>\<open>date:\<close> line, which YAML reads as null, and
  whose last-updated value is null.\<close>

definition page_null_date :: page where
  "page_null_date = \<lparr>
     page_title = Some ''Changelog'', frontmatter = [''date'' \<mapsto> Null], lastUpdated = Null \<rparr>"


section \<open>Properties of the configuration module\<close>

lemma module_exports_seo:
  "plugins (fst (module_exports ctx sc)) ! 2 = Plugin ''seo'' (Some (SeoOptions (seo sc)))"
  by (simp add: module_exports_def)

lemma seo_description_eq:
  "seo_description (seo sc) p s path =
     (if truthy (get_prop (frontmatter p) ''description'')
      then get_prop (frontmatter p) ''description'' else Str (description sc))"
  by (simp add: seo_def js_or_def)

lemma publishedAt_eq:
  "publishedAt (seo sc) p s path =
     (if truthy (get_prop (frontmatter p) ''date'')
      then DateObj (get_prop (frontmatter p) ''date'') else get_prop (frontmatter p) ''date'')"
  by (simp add: seo_def js_and_def)

lemma modifiedAt_eq:
  "modifiedAt (seo sc) p s path =
     (if truthy (lastUpdated p) then DateObj (lastUpdated p) else lastUpdated p)"
  by (simp add: seo_def js_and_def)

lemma is_date_truthy: "is_date v \<Longrightarrow> truthy v"
  by (cases v) (simp_all add: is_date_def)

text \<open>
  C1, as stated, fails. A page whose frontmatter supplies the empty string as its description
  does not get that value back: \<^verbatim>\<open>||\<close> takes the right operand for every falsy left
  operand, so the resolver answers with the site-wide default.
\<close>

theorem description_empty_string_counterexample:
  "frontmatter page_empty_description ''description'' = Some (Str [])
   \<and> seo_description (seo scope) page_empty_description docs_site ''/guide/'' = Str (description scope)
   \<and> seo_description (seo scope) page_empty_description docs_site ''/guide/'' \<noteq> Str []"
  by (simp add: seo_description_eq page_empty_description_def get_prop_def scope_def)

text \<open>
  C1, amended. The description resolver returns the page-level description verbatim when
  that value is truthy (in particular, any non-empty string), and returns the fixed site-wide
  default string when the page supplies none or supplies a falsy value (the empty string,
  null, false, zero, NaN).
\<close>

theorem description_truthy_or_default:
  "(truthy (get_prop (frontmatter p) ''description'') \<longrightarrow>
      seo_description (seo scope) p s path = get_prop (frontmatter p) ''description'')
   \<and> (frontmatter p ''description'' = Some (Str d) \<and> d \<noteq> [] \<longrightarrow>
      seo_description (seo scope) p s path = Str d)
   \<and> (\<not> truthy (get_prop (frontmatter p) ''description'') \<longrightarrow>
      seo_description (seo scope) p s path = Str (description scope))
   \<and> (frontmatter p ''description'' = None \<longrightarrow>
      seo_description (seo scope) p s path = Str (description scope))"
  by (simp add: seo_description_eq get_prop_def)

theorem description_truthy_or_default_witness:
  "seo_description (seo scope) page_with_metadata docs_site ''/guide/validation/'' = Str ''How to validate inputs''
   \<and> seo_description (seo scope) page_with_metadata docs_site ''/guide/validation/''
       = get_prop (frontmatter page_with_metadata) ''description''
   \<and> seo_description (seo scope) page_without_metadata docs_site ''/guide/'' = Str (description scope)
   \<and> seo_description (seo scope) page_empty_description docs_site ''/guide/'' = Str (description scope)"
proof -
  note with_md = description_truthy_or_default [where p = page_with_metadata
      and d = "''How to validate inputs''" and s = docs_site and path = "''/guide/validation/''"]
  note without_md = description_truthy_or_default [where p = page_without_metadata
      and s = docs_site and path = "''/guide/''"]
  note empty = description_truthy_or_default [where p = page_empty_description
      and s = docs_site and path = "''/guide/''"]
  have supplied: "frontmatter page_with_metadata ''description'' = Some (Str ''How to validate inputs'')
      \<and> ''How to validate inputs'' \<noteq> []"
    by (simp add: page_with_metadata_def)
  have is_truthy: "truthy (get_prop (frontmatter page_with_metadata) ''description'')"
    by (simp add: page_with_metadata_def get_prop_def)
  have missing: "frontmatter page_without_metadata ''description'' = None"
    by (simp add: page_without_metadata_def)
  have falsy: "\<not> truthy (get_prop (frontmatter page_empty_description) ''description'')"
    by (simp add: page_empty_description_def get_prop_def)
  from supplied with_md
  have first: "seo_description (seo scope) page_with_metadata docs_site ''/guide/validation/'' = Str ''How to validate inputs''"
    by blast
  from is_truthy with_md
  have second: "seo_description (seo scope) page_with_metadata docs_site ''/guide/validation/''
      = get_prop (frontmatter page_with_metadata) ''description''"
    by blast
  from missing without_md
  have third: "seo_description (seo scope) page_without_metadata docs_site ''/guide/'' = Str (description scope)"
    by blast
  from falsy empty
  have fourth: "seo_description (seo scope) page_empty_description docs_site ''/guide/'' = Str (description scope)"
    by blast
  from first second third fourth show ?thesis by blast
qed

text \<open>
  C2. \<^verbatim>\<open>publishedAt\<close> and \<^verbatim>\<open>modifiedAt\<close> answer with a date exactly when the frontmatter
  date, respectively the page's last-updated value, is truthy, and then the date is built from
  exactly that value. When the value is absent (a missing key or \<^verbatim>\<open>undefined\<close>) the callback
  answers \<^verbatim>\<open>undefined\<close>, and for every other falsy value, such as the null of a blank date,
  it hands the value back as it is: no date is ever built from an absent or null value, so
  neither a zero date nor the epoch can come out of one.
\<close>

theorem published_modified_only_when_present:
  "(frontmatter p ''date'' = None \<longrightarrow> publishedAt (seo sc) p s path = Undefined)
   \<and> (lastUpdated p = Undefined \<longrightarrow> modifiedAt (seo sc) p s path = Undefined)
   \<and> (is_date (publishedAt (seo sc) p s path) \<longrightarrow>
        (\<exists>v. frontmatter p ''date'' = Some v \<and> v \<noteq> Undefined \<and> publishedAt (seo sc) p s path = DateObj v))
   \<and> (is_date (modifiedAt (seo sc) p s path) \<longrightarrow>
        lastUpdated p \<noteq> Undefined \<and> modifiedAt (seo sc) p s path = DateObj (lastUpdated p))
   \<and> is_date (publishedAt (seo sc) p s path) = truthy (get_prop (frontmatter p) ''date'')
   \<and> is_date (modifiedAt (seo sc) p s path) = truthy (lastUpdated p)
   \<and> (truthy (get_prop (frontmatter p) ''date'') \<longrightarrow>
        publishedAt (seo sc) p s path = DateObj (get_prop (frontmatter p) ''date''))
   \<and> (truthy (lastUpdated p) \<longrightarrow> modifiedAt (seo sc) p s path = DateObj (lastUpdated p))
   \<and> (\<not> truthy (get_prop (frontmatter p) ''date'') \<longrightarrow>
        publishedAt (seo sc) p s path = get_prop (frontmatter p) ''date''
        \<and> \<not> is_date (publishedAt (seo sc) p s path))
   \<and> (\<not> truthy (lastUpdated p) \<longrightarrow>
        modifiedAt (seo sc) p s path = lastUpdated p \<and> \<not> is_date (modifiedAt (seo sc) p s path))
   \<and> (get_prop (frontmatter p) ''date'' = Null \<longrightarrow> publishedAt (seo sc) p s path = Null)
   \<and> (lastUpdated p = Null \<longrightarrow> modifiedAt (seo sc) p s path = Null)"
proof -
  let ?v = "get_prop (frontmatter p) ''date''"
  let ?u = "lastUpdated p"
  let ?pub = "publishedAt (seo sc) p s path"
  let ?mod = "modifiedAt (seo sc) p s path"
  have pub_date: "is_date ?pub = truthy ?v"
  proof (cases "truthy ?v")
    case True
    then show ?thesis by (simp add: publishedAt_eq is_date_def)
  next
    case False
    then have "?pub = ?v" by (simp add: publishedAt_eq)
    with False is_date_truthy [of ?v] show ?thesis by auto
  qed
  have mod_date: "is_date ?mod = truthy ?u"
  proof (cases "truthy ?u")
    case True
    then show ?thesis by (simp add: modifiedAt_eq is_date_def)
  next
    case False
    then have "?mod = ?u" by (simp add: modifiedAt_eq)
    with False is_date_truthy [of ?u] show ?thesis by auto
  qed
  have pub_yes: "truthy ?v \<longrightarrow> ?pub = DateObj ?v"
    by (simp add: publishedAt_eq)
  have mod_yes: "truthy ?u \<longrightarrow> ?mod = DateObj ?u"
    by (simp add: modifiedAt_eq)
  have pub_no: "\<not> truthy ?v \<longrightarrow> ?pub = ?v \<and> \<not> is_date ?pub"
  proof
    assume falsy: "\<not> truthy ?v"
    then have "?pub = ?v" by (simp add: publishedAt_eq)
    moreover from pub_date falsy have "\<not> is_date ?pub" by blast
    ultimately show "?pub = ?v \<and> \<not> is_date ?pub" by (rule conjI)
  qed
  have mod_no: "\<not> truthy ?u \<longrightarrow> ?mod = ?u \<and> \<not> is_date ?mod"
  proof
    assume falsy: "\<not> truthy ?u"
    then have "?mod = ?u" by (simp add: modifiedAt_eq)
    moreover from mod_date falsy have "\<not> is_date ?mod" by blast
    ultimately show "?mod = ?u \<and> \<not> is_date ?mod" by (rule conjI)
  qed
  have pub_missing: "frontmatter p ''date'' = None \<longrightarrow> ?pub = Undefined"
    by (simp add: publishedAt_eq get_prop_def)
  have mod_missing: "?u = Undefined \<longrightarrow> ?mod = Undefined"
    by (simp add: modifiedAt_eq)
  have pub_null: "?v = Null \<longrightarrow> ?pub = Null"
    by (simp add: publishedAt_eq)
  have mod_null: "?u = Null \<longrightarrow> ?mod = Null"
    by (simp add: modifiedAt_eq)
  have pub_only: "is_date ?pub \<longrightarrow> (\<exists>v. frontmatter p ''date'' = Some v \<and> v \<noteq> Undefined \<and> ?pub = DateObj v)"
  proof
    assume "is_date ?pub"
    with pub_date have t: "truthy ?v" by simp
    then have "?v \<noteq> Undefined" by auto
    then have "frontmatter p ''date'' = Some ?v \<and> ?v \<noteq> Undefined"
      by (cases "frontmatter p ''date''") (simp_all add: get_prop_def)
    with t pub_yes show "\<exists>v. frontmatter p ''date'' = Some v \<and> v \<noteq> Undefined \<and> ?pub = DateObj v"
      by simp
  qed
  have mod_only: "is_date ?mod \<longrightarrow> ?u \<noteq> Undefined \<and> ?mod = DateObj ?u"
  proof
    assume "is_date ?mod"
    with mod_date have t: "truthy ?u" by simp
    then have "?u \<noteq> Undefined" by auto
    with t mod_yes show "?u \<noteq> Undefined \<and> ?mod = DateObj ?u" by simp
  qed
  from pub_missing mod_missing pub_only mod_only pub_date mod_date pub_yes mod_yes pub_no mod_no
    pub_null mod_null
  show ?thesis by (intro conjI)
qed

theorem published_modified_only_when_present_witness:
  "publishedAt (seo scope) page_without_metadata docs_site ''/guide/'' = Undefined
   \<and> modifiedAt (seo scope) page_without_metadata docs_site ''/guide/'' = Undefined
   \<and> publishedAt (seo scope) page_with_metadata docs_site ''/guide/validation/'' = DateObj (Str ''2020-03-01'')
   \<and> modifiedAt (seo scope) page_with_metadata docs_site ''/guide/validation/'' = DateObj (Str ''3/1/2020, 10:00:00 AM'')
   \<and> publishedAt (seo scope) page_null_date docs_site ''/changelog/'' = Null
   \<and> modifiedAt (seo scope) page_null_date docs_site ''/changelog/'' = Null
   \<and> \<not> is_date (publishedAt (seo scope) page_null_date docs_site ''/changelog/'')
   \<and> \<not> is_date (modifiedAt (seo scope) page_null_date docs_site ''/changelog/'')
   \<and> is_date (publishedAt (seo scope) page_with_metadata docs_site ''/guide/validation/'')
   \<and> is_date (modifiedAt (seo scope) page_with_metadata docs_site ''/guide/validation/'')"
proof -
  note absent = published_modified_only_when_present [of page_without_metadata scope docs_site "''/guide/''"]
  note present = published_modified_only_when_present [of page_with_metadata scope docs_site "''/guide/validation/''"]
  note blank = published_modified_only_when_present [of page_null_date scope docs_site "''/changelog/''"]
  have no_date: "frontmatter page_without_metadata ''date'' = None"
    and no_update: "lastUpdated page_without_metadata = Undefined"
    by (simp_all add: page_without_metadata_def)
  have fm: "get_prop (frontmatter page_with_metadata) ''date'' = Str ''2020-03-01''"
    and lu: "lastUpdated page_with_metadata = Str ''3/1/2020, 10:00:00 AM''"
    by (simp_all add: page_with_metadata_def get_prop_def)
  have dated: "truthy (get_prop (frontmatter page_with_metadata) ''date'')"
    and updated: "truthy (lastUpdated page_with_metadata)"
    by (simp_all add: fm lu)
  have null_date: "get_prop (frontmatter page_null_date) ''date'' = Null"
    and null_update: "lastUpdated page_null_date = Null"
    by (simp_all add: page_null_date_def get_prop_def)
  have falsy_date: "\<not> truthy (get_prop (frontmatter page_null_date) ''date'')"
    and falsy_update: "\<not> truthy (lastUpdated page_null_date)"
    by (simp_all add: null_date null_update)
  from absent no_date have a: "publishedAt (seo scope) page_without_metadata docs_site ''/guide/'' = Undefined"
    by blast
  from absent no_update have b: "modifiedAt (seo scope) page_without_metadata docs_site ''/guide/'' = Undefined"
    by blast
  from present dated have "publishedAt (seo scope) page_with_metadata docs_site ''/guide/validation/''
      = DateObj (get_prop (frontmatter page_with_metadata) ''date'')"
    by blast
  with fm have c: "publishedAt (seo scope) page_with_metadata docs_site ''/guide/validation/'' = DateObj (Str ''2020-03-01'')"
    by simp
  from present updated have "modifiedAt (seo scope) page_with_metadata docs_site ''/guide/validation/''
      = DateObj (lastUpdated page_with_metadata)"
    by blast
  with lu have d: "modifiedAt (seo scope) page_with_metadata docs_site ''/guide/validation/'' = DateObj (Str ''3/1/2020, 10:00:00 AM'')"
    by simp
  from blank null_date have e: "publishedAt (seo scope) page_null_date docs_site ''/changelog/'' = Null"
    by blast
  from blank null_update have f: "modifiedAt (seo scope) page_null_date docs_site ''/changelog/'' = Null"
    by blast
  from blank falsy_date have g: "\<not> is_date (publishedAt (seo scope) page_null_date docs_site ''/changelog/'')"
    by blast
  from blank falsy_update have h: "\<not> is_date (modifiedAt (seo scope) page_null_date docs_site ''/changelog/'')"
    by blast
  from present dated have i: "is_date (publishedAt (seo scope) page_with_metadata docs_site ''/guide/validation/'')"
    by blast
  from present updated have j: "is_date (modifiedAt (seo scope) page_with_metadata docs_site ''/guide/validation/'')"
    by blast
  from a b c d e f g h i j show ?thesis by (intro conjI)
qed

text \<open>
  C3. The plugin sequence of the assembled configuration is, in this order, the live plugin,
  the Google Analytics plugin (under its full name \<^verbatim>\<open>@vuepress/google-analytics\<close>) and the
  SEO plugin.
\<close>

theorem plugins_in_declaration_order:
  "map plugin_name (plugins (fst (module_exports ctx sc))) = [''live'', ''@vuepress/google-analytics'', ''seo'']"
  by (simp add: module_exports_def)

text \<open>
  C4. The sidebar has the single key \<^verbatim>\<open>/guide\<close>, and the top-level sections under it are
  titled Guide, Inputs, Forms, in this order.
\<close>

theorem sidebar_sections_in_order:
  "map (\<lambda>(k, items). (k, map item_title items)) (sidebar (themeConfig (fst (module_exports ctx sc))))
     = [(''/guide'', [Some ''Guide'', Some ''Inputs'', Some ''Forms''])]"
  by (simp add: module_exports_def guide_sidebar_def)

text \<open>
  C5. For every page, the resolved SEO title is the page's title as a template literal prints
  it, then a dash set off by spaces, then the site name (the module's \<^verbatim>\<open>title\<close>
  constant); for a page whose title is the string \<open>t\<close> that is \<open>t\<close> suffixed with the dash
  and the site name.
\<close>

theorem seo_title_suffixed:
  "seo_title (seo sc) p s path
     = Str (template_string (page_title p) @ '' '' @ em_dash @ '' '' @ title scope)
   \<and> (page_title p = Some t \<longrightarrow>
        seo_title (seo sc) p s path = Str (t @ '' '' @ em_dash @ '' '' @ title scope))"
  by (simp add: seo_def template_string_def scope_def)

theorem seo_title_suffixed_witness:
  "seo_title (seo scope) page_with_metadata docs_site ''/guide/validation/''
     = Str (''Validation '' @ em_dash @ '' Vue Formulate'')"
proof -
  have "page_title page_with_metadata = Some ''Validation''"
    by (simp add: page_with_metadata_def)
  with seo_title_suffixed [of scope page_with_metadata docs_site "''/guide/validation/''" "''Validation''"]
  have "seo_title (seo scope) page_with_metadata docs_site ''/guide/validation/''
      = Str (''Validation'' @ '' '' @ em_dash @ '' '' @ title scope)"
    by blast
  then show ?thesis by (simp add: scope_def)
qed

text \<open>
  C6. The image resolver returns one fixed absolute URL: whatever page, site data and path it
  is called with, the result is the same.
\<close>

theorem seo_image_fixed:
  "seo_image (seo sc) p s path = Str ''https://vueformulate.com/assets/img/og.jpg''
   \<and> seo_image (seo sc) p s path = seo_image (seo sc) p' s' path'"
  by (simp add: seo_def)

text \<open>
  C7. Every entry of the assembled sidebar, at any depth, that has a non-empty children
  sequence has its \<^verbatim>\<open>collapsable\<close> key written (to true or to false).
\<close>

theorem children_have_collapsable:
  "\<forall>n \<in> set (sidebar_nodes (fst (module_exports ctx sc))). children n \<noteq> [] \<longrightarrow> collapsable n \<noteq> None"
  by (auto simp add: sidebar_nodes_def module_exports_def guide_sidebar_def)

theorem children_have_collapsable_witness:
  "types_group \<in> set (sidebar_nodes (fst (module_exports () scope)))
   \<and> children types_group \<noteq> []
   \<and> collapsable types_group \<noteq> None"
proof -
  have mem: "types_group \<in> set (sidebar_nodes (fst (module_exports () scope)))"
    by (simp add: sidebar_nodes_def module_exports_def guide_sidebar_def types_group_def)
  have kids: "children types_group \<noteq> []"
    by (simp add: types_group_def)
  from children_have_collapsable [of "()" scope] mem kids
  have "collapsable types_group \<noteq> None" by blast
  with mem kids show ?thesis by blast
qed


section \<open>Properties of the autocomplete component\<close>

lemma string_includes_sublist: "string_includes s t = sublist t s"
  by (induction s) (auto simp: sublist_Cons_right)














text \<open>
  C9. When \<^verbatim>\<open>filteredOptions\<close> is non-empty and \<^verbatim>\<open>selectedIndex\<close> lies between 0 and
  length - 1, both \<^verbatim>\<open>increment\<close> and \<^verbatim>\<open>decrement\<close> return, change nothing but
  \<^verbatim>\<open>selectedIndex\<close>, and leave it between 0 and length - 1: \<^verbatim>\<open>increment\<close> steps up by one and
  wraps from the last index to 0, \<^verbatim>\<open>decrement\<close> steps down by one and wraps from 0 to the
  last index.
\<close>

theorem increment_decrement_in_range:
  assumes "filteredOptions lower (input_ctx this) = Inr fs" and "fs \<noteq> []"
    and "0 \<le> selectedIndex this" and "selectedIndex this \<le> int (length fs) - 1"
  shows "\<exists>up down.
      increment lower this = Inr up \<and> decrement lower this = Inr down
    \<and> input_ctx up = input_ctx this \<and> input_ctx down = input_ctx this
    \<and> 0 \<le> selectedIndex up \<and> selectedIndex up \<le> int (length fs) - 1
    \<and> 0 \<le> selectedIndex down \<and> selectedIndex down \<le> int (length fs) - 1
    \<and> (selectedIndex this = int (length fs) - 1 \<longrightarrow> selectedIndex up = 0)
    \<and> (selectedIndex this < int (length fs) - 1 \<longrightarrow> selectedIndex up = selectedIndex this + 1)
    \<and> (selectedIndex this = 0 \<longrightarrow> selectedIndex down = int (length fs) - 1)
    \<and> (0 < selectedIndex this \<longrightarrow> selectedIndex down = selectedIndex this - 1)"
proof -
  let ?len = "int (length fs)"
  let ?up = "this\<lparr>selectedIndex := (if selectedIndex this + 1 < ?len then selectedIndex this + 1 else 0)\<rparr>"
  let ?down = "this\<lparr>selectedIndex := (if selectedIndex this - 1 \<ge> 0 then selectedIndex this - 1 else ?len - 1)\<rparr>"
  from assms(2) have pos: "0 < ?len" by simp
  from assms(1) have up: "increment lower this = Inr ?up"
    by (simp add: increment_def Let_def)
  from assms(1) have down: "decrement lower this = Inr ?down"
    by (simp add: decrement_def Let_def)
  have "input_ctx ?up = input_ctx this" and "input_ctx ?down = input_ctx this"
    by simp_all
  moreover from assms(3,4) pos have "0 \<le> selectedIndex ?up" and "selectedIndex ?up \<le> ?len - 1"
    by simp_all
  moreover from assms(3,4) pos have "0 \<le> selectedIndex ?down" and "selectedIndex ?down \<le> ?len - 1"
    by simp_all
  moreover have "selectedIndex this = ?len - 1 \<longrightarrow> selectedIndex ?up = 0"
    and "selectedIndex this < ?len - 1 \<longrightarrow> selectedIndex ?up = selectedIndex this + 1"
    by simp_all
  moreover have "selectedIndex this = 0 \<longrightarrow> selectedIndex ?down = ?len - 1"
    and "0 < selectedIndex this \<longrightarrow> selectedIndex ?down = selectedIndex this - 1"
    by simp_all
  ultimately show ?thesis using up down by blast
qed

lemma filteredOptions_typing_oe:
  "filteredOptions ascii_lower (input_ctx typing_oe) = Inr [
     \<lparr> opt_value = Num (Finite 1), label = BStr ''Jon Doe'' \<rparr>,
     \<lparr> opt_value = Num (Finite 2), label = BStr ''Jane Roe'' \<rparr>,
     \<lparr> opt_value = Num (Finite 3), label = BStr ''Bob Foe'' \<rparr> ]"
  by code_simp

theorem increment_decrement_in_range_witness:
  "increment ascii_lower typing_oe = Inr (typing_oe\<lparr>selectedIndex := 0\<rparr>)
   \<and> decrement ascii_lower typing_oe = Inr (typing_oe\<lparr>selectedIndex := 1\<rparr>)"
proof -
  let ?fs = "[\<lparr> opt_value = Num (Finite 1), label = BStr ''Jon Doe'' \<rparr>,
     \<lparr> opt_value = Num (Finite 2), label = BStr ''Jane Roe'' \<rparr>,
     \<lparr> opt_value = Num (Finite 3), label = BStr ''Bob Foe'' \<rparr>]"
  have idx: "selectedIndex typing_oe = 2" by (simp add: typing_oe_def)
  have "?fs \<noteq> []" and "0 \<le> selectedIndex typing_oe" and "selectedIndex typing_oe \<le> int (length ?fs) - 1"
    by (simp_all add: idx)
  from increment_decrement_in_range [OF filteredOptions_typing_oe this]
  obtain up down where up: "increment ascii_lower typing_oe = Inr up"
    and down: "decrement ascii_lower typing_oe = Inr down"
    and same: "input_ctx up = input_ctx typing_oe" "input_ctx down = input_ctx typing_oe"
    and wrap: "selectedIndex typing_oe = int (length ?fs) - 1 \<longrightarrow> selectedIndex up = 0"
    and step: "0 < selectedIndex typing_oe \<longrightarrow> selectedIndex down = selectedIndex typing_oe - 1"
    by blast
  from wrap idx have "selectedIndex up = 0" by simp
  with same(1) have "up = typing_oe\<lparr>selectedIndex := 0\<rparr>" by simp
  moreover from step idx have "selectedIndex down = 1" by simp
  with same(2) have "down = typing_oe\<lparr>selectedIndex := 1\<rparr>" by simp
  ultimately show ?thesis using up down by simp
qed




end
